theory Spec2Isabelle
  imports Complex_Main
begin

section \<open>The order store of the modular application (database.py)\<close>

text \<open>
  The three relations of \<^verbatim>\<open>Database.init_db\<close>. A table is the list of its rows in
  insertion order, so duplicate rows stay visible. Monetary columns are SQLite \<^verbatim>\<open>REAL\<close>;
  they are idealised as \<^typ>\<open>real\<close>. The column \<^verbatim>\<open>invoice_id\<close> is \<^verbatim>\<open>TEXT\<close> and only ever
  holds \<^verbatim>\<open>str(n)\<close> for the provider's integer invoice id \<^verbatim>\<open>n\<close>; the model keeps \<^verbatim>\<open>n\<close>
  itself, so \<^verbatim>\<open>int(order['invoice_id'])\<close> and \<^verbatim>\<open>str(invoice_id)\<close> are the identity.
  The surrogate \<^verbatim>\<open>id\<close> columns and the \<^verbatim>\<open>CURRENT_TIMESTAMP\<close> defaults, which none of the
  functions below reads, are left out. The \<^verbatim>\<open>transactions\<close> table carries no \<^verbatim>\<open>UNIQUE\<close>
  constraint: \<^verbatim>\<open>idx_transactions_invoice_id\<close> is a plain index.
\<close>

record user =
  u_user_id :: int
  u_username :: "string option"
  u_first_name :: "string option"
  u_last_name :: "string option"
  u_language_code :: "string option"
  u_total_spent :: real
  u_orders_count :: int

record order =
  o_order_id :: string
  o_user_id :: int
  o_product_id :: string
  o_product_name :: string
  o_amount_usd :: real
  o_amount_crypto :: real
  o_currency :: string
  o_network :: string
  o_invoice_id :: int
  o_payment_url :: string
  o_status :: string
  o_paid_at :: "string option"

record txn =
  t_invoice_id :: int
  t_order_id :: string
  t_amount :: real
  t_currency :: string
  t_network :: string
  t_status :: string

record database =
  users :: "user list"
  orders :: "order list"
  transactions :: "txn list"

text \<open>
  Every method of \<^verbatim>\<open>Database\<close> opens its own connection inside \<^verbatim>\<open>get_connection\<close>, which
  commits when the \<^verbatim>\<open>with\<close> block ends. Each function below therefore maps a committed
  store to the next committed store.
\<close>

definition get_user :: "database \<Rightarrow> int \<Rightarrow> user option" where
  "get_user db uid = find (\<lambda>u. u_user_id u = uid) (users db)"

text \<open>
  \<^verbatim>\<open>get_or_create_user\<close>: an existing row is returned untouched; otherwise a row is inserted
  with the column defaults \<^verbatim>\<open>total_spent = 0.0\<close>, \<^verbatim>\<open>orders_count = 0\<close>. Only the store is
  modelled: the one caller, \<^verbatim>\<open>cmd_start\<close>, discards the returned row.
\<close>

definition get_or_create_user ::
  "database \<Rightarrow> int \<Rightarrow> string option \<Rightarrow> string option \<Rightarrow> string option \<Rightarrow> string option
     \<Rightarrow> database" where
  "get_or_create_user db uid uname fname lname lang =
     (case find (\<lambda>u. u_user_id u = uid) (users db) of
        Some row \<Rightarrow> db
      | None \<Rightarrow>
          db\<lparr>users := users db @
            [\<lparr>u_user_id = uid, u_username = uname, u_first_name = fname, u_last_name = lname,
              u_language_code = lang, u_total_spent = 0, u_orders_count = 0\<rparr>]\<rparr>)"

definition update_user_stats :: "database \<Rightarrow> int \<Rightarrow> real \<Rightarrow> database" where
  "update_user_stats db uid amount =
     db\<lparr>users := map (\<lambda>u. if u_user_id u = uid
                            then u\<lparr>u_total_spent := u_total_spent u + amount,
                                   u_orders_count := u_orders_count u + 1\<rparr>
                            else u) (users db)\<rparr>"

definition get_order :: "database \<Rightarrow> string \<Rightarrow> order option" where
  "get_order db oid = find (\<lambda>x. o_order_id x = oid) (orders db)"

definition get_order_by_invoice :: "database \<Rightarrow> int \<Rightarrow> order option" where
  "get_order_by_invoice db iid = find (\<lambda>x. o_invoice_id x = iid) (orders db)"

text \<open>Python truthiness of an optional string: \<^verbatim>\<open>None\<close> and \<^verbatim>\<open>''\<close> are false.\<close>

definition truthy :: "string option \<Rightarrow> bool" where
  "truthy s = (case s of None \<Rightarrow> False | Some x \<Rightarrow> x \<noteq> [])"

definition update_order_status :: "database \<Rightarrow> string \<Rightarrow> string \<Rightarrow> string option \<Rightarrow> database" where
  "update_order_status db oid status paid_at =
     (if truthy paid_at
      then db\<lparr>orders := map (\<lambda>x. if o_order_id x = oid
                                   then x\<lparr>o_status := status, o_paid_at := paid_at\<rparr> else x)
                               (orders db)\<rparr>
      else db\<lparr>orders := map (\<lambda>x. if o_order_id x = oid then x\<lparr>o_status := status\<rparr> else x)
                               (orders db)\<rparr>)"

definition create_transaction ::
  "database \<Rightarrow> int \<Rightarrow> string \<Rightarrow> real \<Rightarrow> string \<Rightarrow> string \<Rightarrow> string \<Rightarrow> database" where
  "create_transaction db iid oid amount currency network status =
     db\<lparr>transactions := transactions db @
        [\<lparr>t_invoice_id = iid, t_order_id = oid, t_amount = amount, t_currency = currency,
          t_network = network, t_status = status\<rparr>]\<rparr>"

definition transaction_exists :: "database \<Rightarrow> int \<Rightarrow> bool" where
  "transaction_exists db iid = (find (\<lambda>t. t_invoice_id t = iid) (transactions db) \<noteq> None)"


section \<open>The payment gateway client (cryptobot.py)\<close>

datatype PaymentStatus = PENDING | PAID | EXPIRED

text \<open>
  A JSON value used as an amount. \<open>Num r\<close>: \<^verbatim>\<open>float()\<close> returns \<open>r\<close> (a number or a numeric
  string). \<open>NonNum\<close>: \<^verbatim>\<open>float()\<close> raises \<^verbatim>\<open>ValueError\<close> or \<^verbatim>\<open>TypeError\<close>, but sqlite3 can bind
  the value as a parameter (any other string, \<^verbatim>\<open>null\<close>). \<open>Unbindable\<close>: a JSON array or
  object, on which \<^verbatim>\<open>float()\<close> raises \<^verbatim>\<open>TypeError\<close> and which sqlite3 cannot bind.
\<close>

datatype py_value = Num real | NonNum | Unbindable

text \<open>
  The invoice object of a \<^verbatim>\<open>getInvoice\<close> answer, with the keys the client reads; \<open>None\<close> is
  a missing key.
\<close>

record invoice_json =
  ij_invoice_id :: "int option"
  ij_status :: "string option"
  ij_amount :: "py_value option"
  ij_asset :: "string option"

text \<open>
  What the HTTP round trip of \<^verbatim>\<open>_make_request\<close> produced: an \<^verbatim>\<open>aiohttp.ClientError\<close> with its
  text, some other exception (a timeout, say), or a decoded JSON body with \<^verbatim>\<open>ok is True\<close>,
  the \<^verbatim>\<open>result\<close> object if present, and \<^verbatim>\<open>error.message\<close> if present.
\<close>

datatype api_reply =
    ClientError string
  | OtherError
  | Json bool "invoice_json option" "string option"

datatype error = CryptoBotError string | KeyError | OtherException | AttributeError | ValueError

record invoice =
  inv_invoice_id :: int
  inv_status :: string
  inv_amount :: py_value
  inv_asset :: "string option"

record PaymentCheck =
  pc_invoice_id :: int
  pc_status :: PaymentStatus
  pc_amount :: real
  pc_asset :: string
  pc_is_paid :: bool
  pc_raw_status :: "string option"

definition make_request :: "api_reply \<Rightarrow> error + invoice_json" where
  "make_request r =
     (case r of
        ClientError e \<Rightarrow> Inl (CryptoBotError (''Network error: '' @ e))
      | OtherError \<Rightarrow> Inl OtherException
      | Json ok result msg \<Rightarrow>
          (case (ok, result) of
             (True, Some res) \<Rightarrow> Inr res
           | _ \<Rightarrow> Inl (CryptoBotError (case msg of None \<Rightarrow> ''Unknown error'' | Some m \<Rightarrow> m))))"

text \<open>\<^verbatim>\<open>_parse_invoice\<close> indexes \<^verbatim>\<open>invoice_id\<close>, \<^verbatim>\<open>status\<close> and \<^verbatim>\<open>amount\<close> directly.\<close>

definition parse_invoice :: "invoice_json \<Rightarrow> error + invoice" where
  "parse_invoice d =
     (case (ij_invoice_id d, ij_status d, ij_amount d) of
        (Some i, Some s, Some a) \<Rightarrow>
          Inr \<lparr>inv_invoice_id = i, inv_status = s, inv_amount = a, inv_asset = ij_asset d\<rparr>
      | _ \<Rightarrow> Inl KeyError)"

text \<open>Python's \<^verbatim>\<open>p in s\<close> on strings.\<close>

fun startswith :: "string \<Rightarrow> string \<Rightarrow> bool" where
  "startswith s [] = True"
| "startswith [] (p # ps) = False"
| "startswith (c # cs) (p # ps) = (c = p \<and> startswith cs ps)"

fun contains_str :: "string \<Rightarrow> string \<Rightarrow> bool" where
  "contains_str [] p = (p = [])"
| "contains_str (c # cs) p = (startswith (c # cs) p \<or> contains_str cs p)"

definition get_invoice :: "api_reply \<Rightarrow> error + invoice option" where
  "get_invoice r =
     (case make_request r of
        Inr d \<Rightarrow> (case parse_invoice d of Inl e \<Rightarrow> Inl e | Inr i \<Rightarrow> Inr (Some i))
      | Inl (CryptoBotError m) \<Rightarrow>
          (if contains_str m ''INVOICE_NOT_FOUND'' then Inr None else Inl (CryptoBotError m))
      | Inl e \<Rightarrow> Inl e)"

definition status_map :: "string \<Rightarrow> PaymentStatus" where
  "status_map s =
     (if s = ''active'' then PENDING
      else if s = ''paid'' then PAID
      else if s = ''expired'' then EXPIRED
      else EXPIRED)"

definition check_payment :: "int \<Rightarrow> api_reply \<Rightarrow> error + PaymentCheck" where
  "check_payment invoice_id r =
     (case get_invoice r of
        Inl e \<Rightarrow> Inl e
      | Inr None \<Rightarrow>
          Inr \<lparr>pc_invoice_id = invoice_id, pc_status = EXPIRED, pc_amount = 0, pc_asset = [],
               pc_is_paid = False, pc_raw_status = None\<rparr>
      | Inr (Some i) \<Rightarrow>
          (let status = status_map (inv_status i);
               amount = (case inv_amount i of Num a \<Rightarrow> a | NonNum \<Rightarrow> 0 | Unbindable \<Rightarrow> 0)
           in Inr \<lparr>pc_invoice_id = invoice_id, pc_status = status, pc_amount = amount,
                   pc_asset = (case inv_asset i of None \<Rightarrow> [] | Some a \<Rightarrow> a),
                   pc_is_paid = (status = PAID), pc_raw_status = Some (inv_status i)\<rparr>))"

text \<open>
  \<^verbatim>\<open>check_payment_sync\<close>, the blocking variant: its catch-all \<^verbatim>\<open>except Exception\<close> turns every
  failure, transport errors included, into a \<^verbatim>\<open>PaymentCheck\<close> with status \<^verbatim>\<open>EXPIRED\<close>. No handler
  of the repository calls it.
\<close>

definition expired_check :: "int \<Rightarrow> PaymentCheck" where
  "expired_check invoice_id =
     \<lparr>pc_invoice_id = invoice_id, pc_status = EXPIRED, pc_amount = 0, pc_asset = [],
      pc_is_paid = False, pc_raw_status = None\<rparr>"

definition check_payment_sync :: "int \<Rightarrow> api_reply \<Rightarrow> PaymentCheck" where
  "check_payment_sync invoice_id r =
     (case r of
        ClientError e \<Rightarrow> expired_check invoice_id
      | OtherError \<Rightarrow> expired_check invoice_id
      | Json ok result msg \<Rightarrow>
          (if \<not> ok then expired_check invoice_id
           else case result of
                  None \<Rightarrow> expired_check invoice_id
                | Some d \<Rightarrow>
                    (case (ij_status d, ij_amount d) of
                       (Some s, Some a) \<Rightarrow>
                         \<lparr>pc_invoice_id = invoice_id, pc_status = status_map s,
                          pc_amount = (case a of Num x \<Rightarrow> x | NonNum \<Rightarrow> 0 | Unbindable \<Rightarrow> 0),
                          pc_asset = (case ij_asset d of None \<Rightarrow> [] | Some x \<Rightarrow> x),
                          pc_is_paid = (status_map s = PAID), pc_raw_status = Some s\<rparr>
                     | _ \<Rightarrow> expired_check invoice_id)))"


section \<open>The chat handlers of the modular application (main.py)\<close>

text \<open>
  A handler's observable result is the committed store and the message it answers with.
  The messages are Russian texts; each constructor stands for one of them:
  \<open>OrderNotFound\<close> for "order not found", \<open>PaymentSuccess\<close> for the \<^verbatim>\<open>payment_success\<close> template,
  \<open>PaymentNotPaid t\<close> for "payment \<open>t\<close>" followed by the \<^verbatim>\<open>payment_pending\<close> template,
  \<open>CheckError\<close> for "check error", \<open>AlreadyProcessed\<close> for "order already processed",
  \<open>OrderCancelled\<close> for "order cancelled", \<open>OrderConfirmed\<close> for "order confirmed",
  \<open>PaymentConfirmed\<close> for "payment confirmed" and \<open>AlreadyHasStatus s\<close> for "order already
  has status \<open>s\<close>". Sending a message is taken to succeed; \<open>now\<close> is
  \<^verbatim>\<open>datetime.now().isoformat()\<close>.
\<close>

datatype status_text = TextInProcess | TextExpired | TextCancelled | TextUnknown | TextRaw string

datatype reply =
    OrderNotFound
  | PaymentSuccess
  | PaymentNotPaid status_text
  | CheckError
  | AlreadyProcessed
  | OrderCancelled
  | OrderConfirmed
  | PaymentConfirmed
  | AlreadyHasStatus string

definition status_text_map :: "string \<Rightarrow> status_text option" where
  "status_text_map s =
     (if s = ''active'' then Some TextInProcess
      else if s = ''expired'' then Some TextExpired
      else if s = ''cancelled'' then Some TextCancelled
      else None)"

definition cmd_start ::
  "database \<Rightarrow> int \<Rightarrow> string option \<Rightarrow> string option \<Rightarrow> string option \<Rightarrow> string option
     \<Rightarrow> database" where
  "cmd_start db uid uname fname lname lang = get_or_create_user db uid uname fname lname lang"

text \<open>
  \<^verbatim>\<open>check_payment\<close> of main.py, the user's "I paid" button. There is no test of the order's
  status before the gateway is asked; every exception of the \<^verbatim>\<open>try\<close> block ends in the
  "check error" answer.
\<close>

definition main_check_payment :: "database \<Rightarrow> string \<Rightarrow> api_reply \<Rightarrow> string \<Rightarrow> database \<times> reply" where
  "main_check_payment db order_id r now =
     (case get_order db order_id of
        None \<Rightarrow> (db, OrderNotFound)
      | Some ord \<Rightarrow>
          (case check_payment (o_invoice_id ord) r of
             Inl e \<Rightarrow> (db, CheckError)
           | Inr payment \<Rightarrow>
               (if pc_is_paid payment
                then
                  (let db1 = update_order_status db order_id ''paid'' (Some now);
                       db2 = update_user_stats db1 (o_user_id ord) (o_amount_usd ord);
                       db3 = (if \<not> transaction_exists db2 (o_invoice_id ord)
                              then create_transaction db2 (o_invoice_id ord) order_id
                                     (pc_amount payment) (pc_asset payment) [] ''paid''
                              else db2)
                   in (db3, PaymentSuccess))
                else
                  (db, PaymentNotPaid
                         (case status_text_map
                                 (case pc_raw_status payment of None \<Rightarrow> [] | Some s \<Rightarrow> s) of
                            None \<Rightarrow> TextUnknown
                          | Some t \<Rightarrow> t)))))"

definition cancel_payment :: "database \<Rightarrow> string \<Rightarrow> database \<times> reply" where
  "cancel_payment db order_id =
     (case get_order db order_id of
        None \<Rightarrow> (db, OrderNotFound)
      | Some ord \<Rightarrow>
          (if o_status ord \<noteq> ''pending'' then (db, AlreadyProcessed)
           else (update_order_status db order_id ''cancelled'' None, OrderCancelled)))"


section \<open>The administrator's panel (admin.py)\<close>

text \<open>
  These methods are reached through \<^verbatim>\<open>admin_callback\<close>, which lets only administrators in.
  They have no \<^verbatim>\<open>try\<close> block, so an exception leaves the method; the store is then the one
  committed so far. \<^verbatim>\<open>manual_check_payment\<close> reads \<^verbatim>\<open>payment.currency\<close>, an attribute that
  \<^verbatim>\<open>PaymentCheck\<close> does not have: building the arguments of \<^verbatim>\<open>create_transaction\<close> raises
  \<^verbatim>\<open>AttributeError\<close>.
\<close>

definition manual_check_payment ::
  "database \<Rightarrow> string \<Rightarrow> api_reply \<Rightarrow> string \<Rightarrow> database \<times> (error + reply)" where
  "manual_check_payment db order_id r now =
     (case get_order db order_id of
        None \<Rightarrow> (db, Inr OrderNotFound)
      | Some ord \<Rightarrow>
          (if o_status ord \<noteq> ''pending'' then (db, Inr (AlreadyHasStatus (o_status ord)))
           else
             (case check_payment (o_invoice_id ord) r of
                Inl e \<Rightarrow> (db, Inl e)
              | Inr payment \<Rightarrow>
                  (if pc_is_paid payment
                   then
                     (let db1 = update_order_status db order_id ''paid'' (Some now);
                          db2 = update_user_stats db1 (o_user_id ord) (o_amount_usd ord)
                      in if \<not> transaction_exists db2 (o_invoice_id ord)
                         then (db2, Inl AttributeError)
                         else (db2, Inr PaymentConfirmed))
                   else
                     (db, Inr (PaymentNotPaid
                         (case status_text_map
                                 (case pc_raw_status payment of None \<Rightarrow> [] | Some s \<Rightarrow> s) of
                            None \<Rightarrow> (case pc_raw_status payment of
                                       None \<Rightarrow> TextUnknown | Some s \<Rightarrow> TextRaw s)
                          | Some t \<Rightarrow> t)))))))"

definition manual_confirm_order :: "database \<Rightarrow> string \<Rightarrow> string \<Rightarrow> database \<times> reply" where
  "manual_confirm_order db order_id now =
     (case get_order db order_id of
        None \<Rightarrow> (db, OrderNotFound)
      | Some ord \<Rightarrow>
          (let db1 = update_order_status db order_id ''paid'' (Some now);
               db2 = update_user_stats db1 (o_user_id ord) (o_amount_usd ord)
           in (db2, OrderConfirmed)))"

definition manual_cancel_order :: "database \<Rightarrow> string \<Rightarrow> database \<times> reply" where
  "manual_cancel_order db order_id =
     (case get_order db order_id of
        None \<Rightarrow> (db, OrderNotFound)
      | Some ord \<Rightarrow> (update_order_status db order_id ''cancelled'' None, OrderCancelled))"


section \<open>The webhook receiver of the modular application (webhook.py)\<close>

text \<open>
  The invoice object inside a webhook update, with the keys the handlers read; \<open>None\<close> is a
  missing key. \<open>wd_payload\<close> is the correlation payload, the order id.
\<close>

record invoice_data =
  wd_invoice_id :: "int option"
  wd_payload :: "string option"
  wd_amount :: "py_value option"
  wd_asset :: "string option"

text \<open>
  The request body: bytes that are not valid UTF-8 (\<^verbatim>\<open>json.loads\<close> raises
  \<^verbatim>\<open>UnicodeDecodeError\<close>), text that is not JSON (\<^verbatim>\<open>JSONDecodeError\<close>), or an update with its
  \<^verbatim>\<open>update_type\<close> and its \<^verbatim>\<open>payload\<close> object (\<open>None\<close> when the key is missing or the object
  is empty). The signature check only logs a warning and is not part of the model.
\<close>

datatype webhook_body = NotUtf8 | InvalidJson | Update "string option" "invoice_data option"

datatype http_response =
    Ok200
  | AlreadyProcessed200
  | Ignored200
  | NoInvoiceData400
  | NoInvoiceId400
  | InvalidJson400
  | OrderNotFound404
  | Exception500

text \<open>
  The lookup of \<^verbatim>\<open>_handle_invoice_paid\<close>: by the correlation payload when it is non-empty,
  then by the provider's invoice id.
\<close>

definition find_order :: "database \<Rightarrow> invoice_data \<Rightarrow> int \<Rightarrow> order option" where
  "find_order db d iid =
     (case (case wd_payload d of
              None \<Rightarrow> None
            | Some p \<Rightarrow> if p \<noteq> [] then get_order db p else None) of
        Some x \<Rightarrow> Some x
      | None \<Rightarrow> get_order_by_invoice db iid)"

text \<open>
  \<^verbatim>\<open>_handle_invoice_paid\<close>. \<^verbatim>\<open>if not invoice_id\<close> turns away a missing id and the id 0. The
  three writes are three calls of the store, each committed on return; the arguments of
  \<^verbatim>\<open>create_transaction\<close> are built after the first two, and \<^verbatim>\<open>float()\<close> on the amount may
  raise there, which the handler's \<^verbatim>\<open>except Exception\<close> answers with 500.
\<close>

definition handle_invoice_paid ::
  "database \<Rightarrow> invoice_data option \<Rightarrow> string \<Rightarrow> database \<times> http_response" where
  "handle_invoice_paid db payload now =
     (case payload of
        None \<Rightarrow> (db, NoInvoiceData400)
      | Some d \<Rightarrow>
          (case wd_invoice_id d of
             None \<Rightarrow> (db, NoInvoiceId400)
           | Some iid \<Rightarrow>
               (if iid = 0 then (db, NoInvoiceId400)
                else
                  (case find_order db d iid of
                     None \<Rightarrow> (db, OrderNotFound404)
                   | Some ord \<Rightarrow>
                       (if o_status ord = ''paid'' then (db, AlreadyProcessed200)
                        else
                          (let db1 = update_order_status db (o_order_id ord) ''paid'' (Some now);
                               db2 = update_user_stats db1 (o_user_id ord) (o_amount_usd ord)
                           in if \<not> transaction_exists db2 iid
                              then
                                (case (case wd_amount d of
                                         None \<Rightarrow> Num (o_amount_usd ord) | Some v \<Rightarrow> v) of
                                   NonNum \<Rightarrow> (db2, Exception500)
                                 | Unbindable \<Rightarrow> (db2, Exception500)
                                 | Num a \<Rightarrow>
                                     (create_transaction db2 iid (o_order_id ord) a
                                        (case wd_asset d of
                                           None \<Rightarrow> o_currency ord | Some s \<Rightarrow> s)
                                        [] ''paid'', Ok200))
                              else (db2, Ok200)))))))"

definition handle_invoice_expired ::
  "database \<Rightarrow> invoice_data option \<Rightarrow> database \<times> http_response" where
  "handle_invoice_expired db payload =
     (case payload of
        None \<Rightarrow> (db, OrderNotFound404)
      | Some d \<Rightarrow>
          (case (case (case wd_payload d of
                         None \<Rightarrow> None
                       | Some p \<Rightarrow> if p \<noteq> [] then get_order db p else None) of
                   Some x \<Rightarrow> Some x
                 | None \<Rightarrow> (case wd_invoice_id d of
                              None \<Rightarrow> None | Some iid \<Rightarrow> get_order_by_invoice db iid)) of
             None \<Rightarrow> (db, OrderNotFound404)
           | Some ord \<Rightarrow>
               (if o_status ord \<noteq> ''pending'' then (db, AlreadyProcessed200)
                else (update_order_status db (o_order_id ord) ''expired'' None, Ok200))))"

text \<open>
  \<^verbatim>\<open>_handle_webhook\<close> routes only \<^verbatim>\<open>invoice_paid\<close>; every other update is acknowledged.
  \<^verbatim>\<open>JSONDecodeError\<close> has its own 400 answer, any other exception the 500 answer.
\<close>

definition handle_webhook :: "database \<Rightarrow> webhook_body \<Rightarrow> string \<Rightarrow> database \<times> http_response" where
  "handle_webhook db body now =
     (case body of
        NotUtf8 \<Rightarrow> (db, Exception500)
      | InvalidJson \<Rightarrow> (db, InvalidJson400)
      | Update update_type payload \<Rightarrow>
          (if update_type = Some ''invoice_paid'' then handle_invoice_paid db payload now
           else (db, Ignored200)))"


section \<open>The single-file bot (bot.py)\<close>

text \<open>
  bot.py is a second, self-contained implementation with its own schema (an \<^verbatim>\<open>asset\<close> column,
  integer invoice ids) and its own simplified gateway client. Its handlers run their SQL
  statements on one connection and make them durable with a single \<^verbatim>\<open>conn.commit()\<close>; a path
  that never reaches the commit leaves the store as it was.
\<close>

record bot_user =
  bu_user_id :: int
  bu_username :: "string option"
  bu_first_name :: "string option"
  bu_total_spent :: real
  bu_orders_count :: int

record bot_order =
  bo_id :: nat
  bo_order_id :: string
  bo_user_id :: int
  bo_product_id :: string
  bo_product_name :: string
  bo_amount_usd :: real
  bo_asset :: string
  bo_invoice_id :: int
  bo_status :: string
  bo_created_at :: string
  bo_paid_at :: "string option"

text \<open>
  The \<^verbatim>\<open>amount\<close> of a transaction is stored as the gateway sent it; \<open>bt_invoice_id\<close> is \<open>None\<close>
  when the webhook update had no \<^verbatim>\<open>invoice_id\<close>.
\<close>

record bot_txn =
  bt_invoice_id :: "int option"
  bt_order_id :: string
  bt_amount :: py_value
  bt_asset :: string
  bt_status :: string
  bt_created_at :: string

record bot_db =
  bot_users :: "bot_user list"
  bot_orders :: "bot_order list"
  bot_transactions :: "bot_txn list"

subsection \<open>The simplified gateway client\<close>

record bot_invoice_json =
  bij_status :: "string option"
  bij_amount :: "py_value option"
  bij_asset :: "string option"

text \<open>
  \<^verbatim>\<open>_request\<close> has no \<^verbatim>\<open>try\<close>: a transport failure is an exception; otherwise the decoded JSON
  body with the truth value of \<^verbatim>\<open>ok\<close> and the \<^verbatim>\<open>result\<close> object if present.
\<close>

datatype bot_api_reply = BotTransportError | BotJson bool "bot_invoice_json option"

text \<open>
  The dictionary \<^verbatim>\<open>check_payment\<close> returns; for a missing invoice it has only the keys
  \<^verbatim>\<open>status\<close> and \<^verbatim>\<open>is_paid\<close>.
\<close>

record bot_payment =
  bp_status :: string
  bp_is_paid :: bool
  bp_amount :: "py_value option"
  bp_asset :: "string option"

definition bot_get_invoice :: "bot_api_reply \<Rightarrow> error + bot_invoice_json option" where
  "bot_get_invoice r =
     (case r of
        BotTransportError \<Rightarrow> Inl OtherException
      | BotJson ok result \<Rightarrow>
          (if ok then (case result of None \<Rightarrow> Inl KeyError | Some d \<Rightarrow> Inr (Some d))
           else Inr None))"

definition bot_status_map :: "string \<Rightarrow> string" where
  "bot_status_map s =
     (if s = ''active'' then ''pending''
      else if s = ''paid'' then ''paid''
      else if s = ''expired'' then ''expired''
      else ''unknown'')"

definition bot_api_check_payment :: "bot_api_reply \<Rightarrow> error + bot_payment" where
  "bot_api_check_payment r =
     (case bot_get_invoice r of
        Inl e \<Rightarrow> Inl e
      | Inr None \<Rightarrow>
          Inr \<lparr>bp_status = ''unknown'', bp_is_paid = False, bp_amount = None, bp_asset = None\<rparr>
      | Inr (Some d) \<Rightarrow>
          (let status = bot_status_map (case bij_status d of None \<Rightarrow> [] | Some s \<Rightarrow> s)
           in Inr \<lparr>bp_status = status, bp_is_paid = (status = ''paid''),
                   bp_amount = Some (case bij_amount d of None \<Rightarrow> Num 0 | Some a \<Rightarrow> a),
                   bp_asset = Some (case bij_asset d of None \<Rightarrow> [] | Some a \<Rightarrow> a)\<rparr>))"

subsection \<open>The SQL statements of the handlers\<close>

text \<open>
  What sqlite3 accepts as a parameter: an integer must fit into 64 signed bits
  (\<^verbatim>\<open>OverflowError\<close> otherwise), and an amount must not be a JSON array or object. A
  statement that cannot bind raises; the handler then never reaches its commit.
\<close>

definition sqlite_binds_int :: "int option \<Rightarrow> bool" where
  "sqlite_binds_int i =
     (case i of None \<Rightarrow> True | Some n \<Rightarrow> - (2 ^ 63) \<le> n \<and> n < 2 ^ 63)"

definition sqlite_binds_amount :: "py_value \<Rightarrow> bool" where
  "sqlite_binds_amount a = (case a of Num r \<Rightarrow> True | NonNum \<Rightarrow> True | Unbindable \<Rightarrow> False)"

text \<open>\<^verbatim>\<open>UPDATE orders SET status = 'paid', paid_at = ? WHERE order_id = ?\<close>\<close>

definition bot_set_paid :: "bot_db \<Rightarrow> string \<Rightarrow> string \<Rightarrow> bot_db" where
  "bot_set_paid db order_id now =
     db\<lparr>bot_orders := map (\<lambda>x. if bo_order_id x = order_id
                                 then x\<lparr>bo_status := ''paid'', bo_paid_at := Some now\<rparr> else x)
                             (bot_orders db)\<rparr>"

text \<open>\<^verbatim>\<open>UPDATE orders SET status = 'paid', paid_at = ? WHERE id = ?\<close>\<close>

definition bot_set_paid_by_id :: "bot_db \<Rightarrow> nat \<Rightarrow> string \<Rightarrow> bot_db" where
  "bot_set_paid_by_id db row_id now =
     db\<lparr>bot_orders := map (\<lambda>x. if bo_id x = row_id
                                 then x\<lparr>bo_status := ''paid'', bo_paid_at := Some now\<rparr> else x)
                             (bot_orders db)\<rparr>"

text \<open>
  \<^verbatim>\<open>UPDATE users SET total_spent = total_spent + ?, orders_count = orders_count + 1
  WHERE user_id = ?\<close>
\<close>

definition bot_credit_user :: "bot_db \<Rightarrow> int \<Rightarrow> real \<Rightarrow> bot_db" where
  "bot_credit_user db uid amount =
     db\<lparr>bot_users := map (\<lambda>u. if bu_user_id u = uid
                                then u\<lparr>bu_total_spent := bu_total_spent u + amount,
                                       bu_orders_count := bu_orders_count u + 1\<rparr>
                                else u) (bot_users db)\<rparr>"

text \<open>
  \<^verbatim>\<open>INSERT INTO transactions (invoice_id, order_id, amount, asset, status, created_at)
  VALUES (?, ?, ?, ?, 'paid', ?)\<close>
\<close>

definition bot_insert_transaction ::
  "bot_db \<Rightarrow> int option \<Rightarrow> string \<Rightarrow> py_value \<Rightarrow> string \<Rightarrow> string \<Rightarrow> bot_db" where
  "bot_insert_transaction db iid order_id amount asset now =
     db\<lparr>bot_transactions := bot_transactions db @
        [\<lparr>bt_invoice_id = iid, bt_order_id = order_id, bt_amount = amount, bt_asset = asset,
          bt_status = ''paid'', bt_created_at = now\<rparr>]\<rparr>"

subsection \<open>The handlers\<close>

text \<open>
  \<^verbatim>\<open>cmd_start\<close>: \<^verbatim>\<open>INSERT OR REPLACE INTO users (user_id, username, first_name)\<close>. On a primary-key
  conflict SQLite deletes the old row and inserts the new one, whose unnamed columns take
  their defaults \<^verbatim>\<open>total_spent = 0\<close>, \<^verbatim>\<open>orders_count = 0\<close>.
\<close>

definition bot_cmd_start :: "bot_db \<Rightarrow> int \<Rightarrow> string option \<Rightarrow> string option \<Rightarrow> bot_db" where
  "bot_cmd_start db uid uname fname =
     db\<lparr>bot_users := filter (\<lambda>u. bu_user_id u \<noteq> uid) (bot_users db) @
        [\<lparr>bu_user_id = uid, bu_username = uname, bu_first_name = fname,
          bu_total_spent = 0, bu_orders_count = 0\<rparr>]\<rparr>"

definition bot_get_order :: "bot_db \<Rightarrow> string \<Rightarrow> bot_order option" where
  "bot_get_order db order_id = find (\<lambda>x. bo_order_id x = order_id) (bot_orders db)"

definition bot_status_text :: "string \<Rightarrow> status_text" where
  "bot_status_text s =
     (if s = ''pending'' then TextInProcess
      else if s = ''expired'' then TextExpired
      else TextUnknown)"

text \<open>
  \<^verbatim>\<open>check_payment\<close> of bot.py, the user's "I paid" button: no test of the order's status, no
  test for an existing transaction. \<^verbatim>\<open>payment["amount"]\<close> and \<^verbatim>\<open>payment["asset"]\<close> raise
  \<^verbatim>\<open>KeyError\<close> when the key is missing, and the \<^verbatim>\<open>INSERT\<close> raises when the amount cannot be
  bound; both happen before the commit, so the store stays as it was and the answer is
  "check error". The invoice id comes from the order's row and always binds.
\<close>

definition bot_check_payment :: "bot_db \<Rightarrow> string \<Rightarrow> bot_api_reply \<Rightarrow> string \<Rightarrow> bot_db \<times> reply" where
  "bot_check_payment db order_id r now =
     (case bot_get_order db order_id of
        None \<Rightarrow> (db, OrderNotFound)
      | Some ord \<Rightarrow>
          (case bot_api_check_payment r of
             Inl e \<Rightarrow> (db, CheckError)
           | Inr payment \<Rightarrow>
               (if bp_is_paid payment
                then
                  (case (bp_amount payment, bp_asset payment) of
                     (Some amount, Some asset) \<Rightarrow>
                       (if sqlite_binds_amount amount
                        then
                          (let db1 = bot_set_paid db order_id now;
                               db2 = bot_credit_user db1 (bo_user_id ord) (bo_amount_usd ord);
                               db3 = bot_insert_transaction db2 (Some (bo_invoice_id ord))
                                       order_id amount asset now
                           in (db3, PaymentSuccess))
                        else (db, CheckError))
                   | _ \<Rightarrow> (db, CheckError))
                else (db, PaymentNotPaid (bot_status_text (bp_status payment))))))"

definition bot_cancel_order :: "bot_db \<Rightarrow> string \<Rightarrow> bot_db \<times> reply" where
  "bot_cancel_order db order_id =
     (case bot_get_order db order_id of
        None \<Rightarrow> (db, OrderNotFound)
      | Some ord \<Rightarrow>
          (if bo_status ord \<noteq> ''pending'' then (db, AlreadyProcessed)
           else (db\<lparr>bot_orders := map (\<lambda>x. if bo_order_id x = order_id
                                              then x\<lparr>bo_status := ''cancelled''\<rparr> else x)
                                          (bot_orders db)\<rparr>, OrderCancelled)))"

text \<open>
  \<^verbatim>\<open>admin_check_all\<close>, the bulk sweep: the pending orders are selected once, then each is
  checked against the gateway (\<open>gw\<close> gives the answer for an invoice id). A paid order is
  marked paid and its user credited; no transaction row is written. An exception skips
  the order. The commit follows the loop. The result carries the two counters of the
  closing message.
\<close>

fun sweep ::
  "(int \<Rightarrow> bot_api_reply) \<Rightarrow> string \<Rightarrow> bot_order list \<Rightarrow> bot_db \<times> nat \<times> nat \<Rightarrow> bot_db \<times> nat \<times> nat" where
  "sweep gw now [] st = st"
| "sweep gw now (ord # rest) (db, checked, confirmed) =
     (case bot_api_check_payment (gw (bo_invoice_id ord)) of
        Inl e \<Rightarrow> sweep gw now rest (db, checked, confirmed)
      | Inr payment \<Rightarrow>
          (if bp_is_paid payment
           then sweep gw now rest
                  (bot_credit_user (bot_set_paid_by_id db (bo_id ord) now)
                     (bo_user_id ord) (bo_amount_usd ord),
                   checked + 1, confirmed + 1)
           else sweep gw now rest (db, checked + 1, confirmed)))"

datatype sweep_reply = NotAdmin | NothingPending | SweepDone nat nat

definition admin_check_all ::
  "int list \<Rightarrow> int \<Rightarrow> bot_db \<Rightarrow> (int \<Rightarrow> bot_api_reply) \<Rightarrow> string \<Rightarrow> bot_db \<times> sweep_reply" where
  "admin_check_all admin_ids from_user db gw now =
     (if from_user \<notin> set admin_ids then (db, NotAdmin)
      else
        (let pending_orders = filter (\<lambda>x. bo_status x = ''pending'') (bot_orders db)
         in if pending_orders = [] then (db, NothingPending)
            else (case sweep gw now pending_orders (db, 0, 0) of
                    (db', checked, confirmed) \<Rightarrow> (db', SweepDone checked confirmed))))"

text \<open>
  The Flask \<^verbatim>\<open>webhook\<close> of bot.py: it acts only on an \<^verbatim>\<open>invoice_paid\<close> update whose payload
  names an order that is still pending. Every exception ends in the 500 answer with
  nothing committed: a body that cannot be decoded, an invoice id or an amount that the
  \<^verbatim>\<open>INSERT\<close> cannot bind.
\<close>

definition bot_webhook :: "bot_db \<Rightarrow> webhook_body \<Rightarrow> string \<Rightarrow> bot_db \<times> http_response" where
  "bot_webhook db body now =
     (case body of
        NotUtf8 \<Rightarrow> (db, Exception500)
      | InvalidJson \<Rightarrow> (db, Exception500)
      | Update update_type payload \<Rightarrow>
          (if update_type = Some ''invoice_paid''
           then
             (case payload of
                None \<Rightarrow> (db, Ok200)
              | Some d \<Rightarrow>
                  (case wd_payload d of
                     None \<Rightarrow> (db, Ok200)
                   | Some order_id \<Rightarrow>
                       (if order_id = [] then (db, Ok200)
                        else
                          (case bot_get_order db order_id of
                             None \<Rightarrow> (db, Ok200)
                           | Some ord \<Rightarrow>
                               (if bo_status ord = ''pending''
                                then
                                  if sqlite_binds_int (wd_invoice_id d) \<and>
                                     sqlite_binds_amount
                                       (case wd_amount d of None \<Rightarrow> Num 0 | Some a \<Rightarrow> a)
                                  then
                                  (let db1 = bot_set_paid db order_id now;
                                       db2 = bot_credit_user db1 (bo_user_id ord)
                                               (bo_amount_usd ord);
                                       db3 = bot_insert_transaction db2 (wd_invoice_id d) order_id
                                               (case wd_amount d of
                                                  None \<Rightarrow> Num 0 | Some a \<Rightarrow> a)
                                               (case wd_asset d of None \<Rightarrow> [] | Some a \<Rightarrow> a)
                                               now
                                   in (db3, Ok200))
                                  else (db, Exception500)
                                else (db, Ok200))))))
           else (db, Ok200)))"


section \<open>Concrete stores and gateway answers\<close>

text \<open>
  One user, one pending order of 9.99 for invoice 100, no transaction yet: the state right
  after a purchase in the modular application, and the same state in bot.py.
\<close>

definition example_user :: user where
  "example_user =
     \<lparr>u_user_id = 7, u_username = Some ''ann'', u_first_name = Some ''Ann'', u_last_name = None,
      u_language_code = Some ''en'', u_total_spent = 0, u_orders_count = 0\<rparr>"

definition example_order :: order where
  "example_order =
     \<lparr>o_order_id = ''A1'', o_user_id = 7, o_product_id = ''basic'', o_product_name = ''Basic'',
      o_amount_usd = 9.99, o_amount_crypto = 9.99, o_currency = ''USDT'', o_network = [],
      o_invoice_id = 100, o_payment_url = ''u'', o_status = ''pending'', o_paid_at = None\<rparr>"

definition example_db :: database where
  "example_db = \<lparr>users = [example_user], orders = [example_order], transactions = []\<rparr>"

definition bot_example_db :: bot_db where
  "bot_example_db =
     \<lparr>bot_users = [\<lparr>bu_user_id = 7, bu_username = Some ''ann'', bu_first_name = Some ''Ann'',
                     bu_total_spent = 0, bu_orders_count = 0\<rparr>],
      bot_orders = [\<lparr>bo_id = 1, bo_order_id = ''A1'', bo_user_id = 7, bo_product_id = ''basic'',
                      bo_product_name = ''Basic'', bo_amount_usd = 9.99, bo_asset = ''USDT'',
                      bo_invoice_id = 100, bo_status = ''pending'', bo_created_at = ''t0'',
                      bo_paid_at = None\<rparr>],
      bot_transactions = []\<rparr>"

text \<open>
  A store with an order \<^verbatim>\<open>A1\<close> that is still pending and an order \<^verbatim>\<open>B2\<close> that was paid, and
  one where \<^verbatim>\<open>A1\<close> was cancelled instead.
\<close>

definition two_orders_db :: database where
  "two_orders_db =
     \<lparr>users = [example_user\<lparr>u_total_spent := 5, u_orders_count := 1\<rparr>],
      orders = [example_order,
                example_order\<lparr>o_order_id := ''B2'', o_invoice_id := 200, o_amount_usd := 5,
                  o_status := ''paid'', o_paid_at := Some ''t0''\<rparr>],
      transactions = [\<lparr>t_invoice_id = 200, t_order_id = ''B2'', t_amount = 5,
                        t_currency = ''USDT'', t_network = [], t_status = ''paid''\<rparr>]\<rparr>"

definition terminal_db :: database where
  "terminal_db =
     \<lparr>users = [example_user\<lparr>u_total_spent := 5, u_orders_count := 1\<rparr>],
      orders = [example_order\<lparr>o_status := ''cancelled''\<rparr>,
                example_order\<lparr>o_order_id := ''B2'', o_invoice_id := 200, o_amount_usd := 5,
                  o_status := ''paid'', o_paid_at := Some ''t0''\<rparr>],
      transactions = [\<lparr>t_invoice_id = 200, t_order_id = ''B2'', t_amount = 5,
                        t_currency = ''USDT'', t_network = [], t_status = ''paid''\<rparr>]\<rparr>"

text \<open>The bot.py store after order \<^verbatim>\<open>A1\<close> was paid; order \<^verbatim>\<open>B2\<close> is pending.\<close>

definition bot_terminal_db :: bot_db where
  "bot_terminal_db =
     \<lparr>bot_users = [\<lparr>bu_user_id = 7, bu_username = Some ''ann'', bu_first_name = Some ''Ann'',
                     bu_total_spent = 9.99, bu_orders_count = 1\<rparr>],
      bot_orders = [\<lparr>bo_id = 1, bo_order_id = ''A1'', bo_user_id = 7, bo_product_id = ''basic'',
                      bo_product_name = ''Basic'', bo_amount_usd = 9.99, bo_asset = ''USDT'',
                      bo_invoice_id = 100, bo_status = ''paid'', bo_created_at = ''t0'',
                      bo_paid_at = Some ''t1''\<rparr>,
                    \<lparr>bo_id = 2, bo_order_id = ''B2'', bo_user_id = 7, bo_product_id = ''basic'',
                      bo_product_name = ''Basic'', bo_amount_usd = 9.99, bo_asset = ''USDT'',
                      bo_invoice_id = 200, bo_status = ''pending'', bo_created_at = ''t2'',
                      bo_paid_at = None\<rparr>],
      bot_transactions = [\<lparr>bt_invoice_id = Some 100, bt_order_id = ''A1'', bt_amount = Num 9.99,
                            bt_asset = ''USDT'', bt_status = ''paid'', bt_created_at = ''t1''\<rparr>]\<rparr>"

text \<open>Answers of the gateway for invoice 100, and webhook updates for it.\<close>

definition paid_reply :: api_reply where
  "paid_reply =
     Json True (Some \<lparr>ij_invoice_id = Some 100, ij_status = Some ''paid'',
                      ij_amount = Some (Num 9.99), ij_asset = Some ''USDT''\<rparr>) None"

definition expired_reply :: api_reply where
  "expired_reply =
     Json True (Some \<lparr>ij_invoice_id = Some 100, ij_status = Some ''expired'',
                      ij_amount = Some (Num 9.99), ij_asset = Some ''USDT''\<rparr>) None"

definition cancelled_reply :: api_reply where
  "cancelled_reply =
     Json True (Some \<lparr>ij_invoice_id = Some 100, ij_status = Some ''cancelled'',
                      ij_amount = Some (Num 9.99), ij_asset = Some ''USDT''\<rparr>) None"

definition not_found_reply :: api_reply where
  "not_found_reply = Json False None (Some ''INVOICE_NOT_FOUND'')"

definition bot_paid_reply :: bot_api_reply where
  "bot_paid_reply =
     BotJson True (Some \<lparr>bij_status = Some ''paid'', bij_amount = Some (Num 9.99),
                         bij_asset = Some ''USDT''\<rparr>)"

definition bot_expired_reply :: bot_api_reply where
  "bot_expired_reply =
     BotJson True (Some \<lparr>bij_status = Some ''expired'', bij_amount = Some (Num 9.99),
                         bij_asset = Some ''USDT''\<rparr>)"

definition paid_gateway :: "int \<Rightarrow> bot_api_reply" where
  "paid_gateway n = bot_paid_reply"

definition paid_update :: webhook_body where
  "paid_update =
     Update (Some ''invoice_paid'')
       (Some \<lparr>wd_invoice_id = Some 100, wd_payload = Some ''A1'', wd_amount = Some (Num 9.99),
               wd_asset = Some ''USDT''\<rparr>)"

text \<open>The same update with an \<^verbatim>\<open>amount\<close> that \<^verbatim>\<open>float()\<close> rejects.\<close>

definition bad_amount_update :: webhook_body where
  "bad_amount_update =
     Update (Some ''invoice_paid'')
       (Some \<lparr>wd_invoice_id = Some 100, wd_payload = Some ''A1'', wd_amount = Some NonNum,
               wd_asset = Some ''USDT''\<rparr>)"


section \<open>Auxiliary facts\<close>

lemmas store_defs = get_user_def get_or_create_user_def update_user_stats_def get_order_def
  get_order_by_invoice_def truthy_def update_order_status_def create_transaction_def
  transaction_exists_def

lemmas gateway_defs = make_request_def parse_invoice_def get_invoice_def status_map_def
  check_payment_def

lemmas bot_defs = bot_get_invoice_def bot_status_map_def bot_api_check_payment_def
  sqlite_binds_int_def sqlite_binds_amount_def
  bot_set_paid_def bot_set_paid_by_id_def bot_credit_user_def bot_insert_transaction_def
  bot_get_order_def bot_status_text_def

lemmas example_defs = example_user_def example_order_def example_db_def bot_example_db_def
  two_orders_db_def terminal_db_def bot_terminal_db_def paid_reply_def expired_reply_def
  cancelled_reply_def not_found_reply_def bot_paid_reply_def bot_expired_reply_def
  paid_gateway_def paid_update_def bad_amount_update_def

subsection \<open>What each store operation leaves alone\<close>

lemma transactions_update_order_status [simp]:
  "transactions (update_order_status db oid s p) = transactions db"
  by (simp add: update_order_status_def)

lemma users_update_order_status [simp]:
  "users (update_order_status db oid s p) = users db"
  by (simp add: update_order_status_def)

lemma transactions_update_user_stats [simp]:
  "transactions (update_user_stats db uid a) = transactions db"
  by (simp add: update_user_stats_def)

lemma orders_update_user_stats [simp]:
  "orders (update_user_stats db uid a) = orders db"
  by (simp add: update_user_stats_def)

lemma transaction_exists_iff:
  "transaction_exists db iid \<longleftrightarrow> iid \<in> t_invoice_id ` set (transactions db)"
  by (auto simp: transaction_exists_def find_None_iff)

lemma transaction_exists_update_order_status [simp]:
  "transaction_exists (update_order_status db oid s p) iid = transaction_exists db iid"
  by (simp add: transaction_exists_def)

lemma transaction_exists_update_user_stats [simp]:
  "transaction_exists (update_user_stats db uid a) iid = transaction_exists db iid"
  by (simp add: transaction_exists_def)

subsection \<open>Reading a row back after an update\<close>

lemma find_map_status:
  "find (\<lambda>x. o_order_id x = oid)
        (map (\<lambda>x. if o_order_id x = oid then x\<lparr>o_status := s\<rparr> else x) xs) =
   map_option (\<lambda>x. x\<lparr>o_status := s\<rparr>) (find (\<lambda>x. o_order_id x = oid) xs)"
  by (induction xs) auto

lemma find_map_status_paid_at:
  "find (\<lambda>x. o_order_id x = oid)
        (map (\<lambda>x. if o_order_id x = oid then x\<lparr>o_status := s, o_paid_at := p\<rparr> else x) xs) =
   map_option (\<lambda>x. x\<lparr>o_status := s, o_paid_at := p\<rparr>) (find (\<lambda>x. o_order_id x = oid) xs)"
  by (induction xs) auto

lemma get_order_update_order_status:
  "get_order (update_order_status db oid s p) oid =
   map_option (\<lambda>x. if truthy p then x\<lparr>o_status := s, o_paid_at := p\<rparr> else x\<lparr>o_status := s\<rparr>)
     (get_order db oid)"
  by (simp add: get_order_def update_order_status_def find_map_status find_map_status_paid_at)

lemma find_map_credit:
  "find (\<lambda>u. u_user_id u = uid)
        (map (\<lambda>u. if u_user_id u = uid
                   then u\<lparr>u_total_spent := u_total_spent u + a,
                          u_orders_count := u_orders_count u + 1\<rparr>
                   else u) xs) =
   map_option (\<lambda>u. u\<lparr>u_total_spent := u_total_spent u + a,
                        u_orders_count := u_orders_count u + 1\<rparr>)
     (find (\<lambda>u. u_user_id u = uid) xs)"
  by (induction xs) auto

lemma get_user_update_user_stats:
  "get_user (update_user_stats db uid a) uid =
   map_option (\<lambda>u. u\<lparr>u_total_spent := u_total_spent u + a,
                        u_orders_count := u_orders_count u + 1\<rparr>)
     (get_user db uid)"
  by (simp add: get_user_def update_user_stats_def find_map_credit)

lemma find_map_bot_status:
  "find (\<lambda>x. bo_order_id x = oid)
        (map (\<lambda>x. if bo_order_id x = oid then x\<lparr>bo_status := s\<rparr> else x) xs) =
   map_option (\<lambda>x. x\<lparr>bo_status := s\<rparr>) (find (\<lambda>x. bo_order_id x = oid) xs)"
  by (induction xs) auto

lemma find_map_bot_paid:
  "find (\<lambda>x. bo_order_id x = oid)
        (map (\<lambda>x. if bo_order_id x = oid then x\<lparr>bo_status := s, bo_paid_at := p\<rparr> else x) xs) =
   map_option (\<lambda>x. x\<lparr>bo_status := s, bo_paid_at := p\<rparr>) (find (\<lambda>x. bo_order_id x = oid) xs)"
  by (induction xs) auto

subsection \<open>The guarded insert keeps invoice ids unique\<close>

lemma distinct_create_transaction:
  "\<not> transaction_exists db iid \<Longrightarrow> distinct (map t_invoice_id (transactions db)) \<Longrightarrow>
   distinct (map t_invoice_id (transactions (create_transaction db iid oid a c n s)))"
  by (auto simp: transaction_exists_iff create_transaction_def)

lemma distinct_main_check_payment:
  "distinct (map t_invoice_id (transactions db)) \<Longrightarrow>
   distinct (map t_invoice_id (transactions (fst (main_check_payment db oid r now))))"
  by (auto simp: main_check_payment_def Let_def distinct_create_transaction
           split: option.splits sum.splits)

lemma distinct_manual_check_payment:
  "distinct (map t_invoice_id (transactions db)) \<Longrightarrow>
   distinct (map t_invoice_id (transactions (fst (manual_check_payment db oid r now))))"
  by (auto simp: manual_check_payment_def Let_def split: option.splits sum.splits)

lemma distinct_handle_invoice_paid:
  "distinct (map t_invoice_id (transactions db)) \<Longrightarrow>
   distinct (map t_invoice_id (transactions (fst (handle_invoice_paid db p now))))"
  by (auto simp: handle_invoice_paid_def Let_def distinct_create_transaction
           split: option.splits py_value.splits)

lemma distinct_handle_webhook:
  "distinct (map t_invoice_id (transactions db)) \<Longrightarrow>
   distinct (map t_invoice_id (transactions (fst (handle_webhook db body now))))"
  by (auto simp: handle_webhook_def distinct_handle_invoice_paid split: webhook_body.splits)

subsection \<open>The paid branch of the user's check\<close>

text \<open>
  On a pending order whose invoice is reported paid, \<^verbatim>\<open>check_payment\<close> of main.py answers
  with the success message, marks the order paid with \<^verbatim>\<open>paid_at\<close>, credits the owning user
  and appends one transaction with the settled amount and asset, provided no transaction
  for the invoice exists yet.
\<close>

lemma main_check_payment_paid:
  assumes "get_order db oid = Some ord"
    and "get_user db (o_user_id ord) = Some u"
    and "check_payment (o_invoice_id ord) r = Inr pc" and "pc_is_paid pc"
    and "\<not> transaction_exists db (o_invoice_id ord)" and "now \<noteq> []"
  shows "snd (main_check_payment db oid r now) = PaymentSuccess
    \<and> get_order (fst (main_check_payment db oid r now)) oid =
        Some (ord\<lparr>o_status := ''paid'', o_paid_at := Some now\<rparr>)
    \<and> get_user (fst (main_check_payment db oid r now)) (o_user_id ord) =
        Some (u\<lparr>u_total_spent := u_total_spent u + o_amount_usd ord,
                u_orders_count := u_orders_count u + 1\<rparr>)
    \<and> transactions (fst (main_check_payment db oid r now)) =
        transactions db @
          [\<lparr>t_invoice_id = o_invoice_id ord, t_order_id = oid, t_amount = pc_amount pc,
            t_currency = pc_asset pc, t_network = [], t_status = ''paid''\<rparr>]"
proof -
  let ?db1 = "update_order_status db oid ''paid'' (Some now)"
  let ?db2 = "update_user_stats ?db1 (o_user_id ord) (o_amount_usd ord)"
  let ?db3 = "create_transaction ?db2 (o_invoice_id ord) oid (pc_amount pc) (pc_asset pc)
                [] ''paid''"
  have res: "main_check_payment db oid r now = (?db3, PaymentSuccess)"
    using assms by (simp add: main_check_payment_def Let_def)
  have tr: "truthy (Some now)"
    using assms(6) by (simp add: truthy_def)
  have o: "get_order ?db3 oid = Some (ord\<lparr>o_status := ''paid'', o_paid_at := Some now\<rparr>)"
    using assms(1) tr get_order_update_order_status [of db oid "''paid''" "Some now"]
    by (simp add: get_order_def create_transaction_def)
  have u: "get_user ?db3 (o_user_id ord) =
        Some (u\<lparr>u_total_spent := u_total_spent u + o_amount_usd ord,
                u_orders_count := u_orders_count u + 1\<rparr>)"
    using assms(2) get_user_update_user_stats [of ?db1 "o_user_id ord" "o_amount_usd ord"]
    by (simp add: get_user_def create_transaction_def)
  have t: "transactions ?db3 = transactions db @
          [\<lparr>t_invoice_id = o_invoice_id ord, t_order_id = oid, t_amount = pc_amount pc,
            t_currency = pc_asset pc, t_network = [], t_status = ''paid''\<rparr>]"
    by (simp add: create_transaction_def)
  show ?thesis
    using res o u t by simp
qed

text \<open>The same for \<^verbatim>\<open>check_payment\<close> of bot.py, which inserts without a test.\<close>

lemma bot_check_payment_paid:
  assumes "bot_get_order bdb boid = Some bord"
    and "bot_get_invoice br = Inr (Some bi)" and "bij_status bi = Some ''paid''"
    and "bij_amount bi \<noteq> Some Unbindable"
  shows "snd (bot_check_payment bdb boid br now) = PaymentSuccess
    \<and> bot_get_order (fst (bot_check_payment bdb boid br now)) boid =
        Some (bord\<lparr>bo_status := ''paid'', bo_paid_at := Some now\<rparr>)
    \<and> bot_transactions (fst (bot_check_payment bdb boid br now)) =
        bot_transactions bdb @
          [\<lparr>bt_invoice_id = Some (bo_invoice_id bord), bt_order_id = boid,
            bt_amount = (case bij_amount bi of None \<Rightarrow> Num 0 | Some a \<Rightarrow> a),
            bt_asset = (case bij_asset bi of None \<Rightarrow> [] | Some a \<Rightarrow> a),
            bt_status = ''paid'', bt_created_at = now\<rparr>]"
proof -
  let ?db1 = "bot_set_paid bdb boid now"
  let ?db2 = "bot_credit_user ?db1 (bo_user_id bord) (bo_amount_usd bord)"
  let ?db3 = "bot_insert_transaction ?db2 (Some (bo_invoice_id bord)) boid
                (case bij_amount bi of None \<Rightarrow> Num 0 | Some a \<Rightarrow> a)
                (case bij_asset bi of None \<Rightarrow> [] | Some a \<Rightarrow> a) now"
  have res: "bot_check_payment bdb boid br now = (?db3, PaymentSuccess)"
    using assms
    by (simp add: bot_check_payment_def bot_api_check_payment_def bot_status_map_def Let_def
          sqlite_binds_amount_def split: option.splits py_value.splits)
  have o: "bot_get_order ?db3 boid = Some (bord\<lparr>bo_status := ''paid'', bo_paid_at := Some now\<rparr>)"
    using assms(1)
    by (simp add: bot_get_order_def bot_insert_transaction_def bot_credit_user_def
          bot_set_paid_def find_map_bot_paid)
  have t: "bot_transactions ?db3 = bot_transactions bdb @
          [\<lparr>bt_invoice_id = Some (bo_invoice_id bord), bt_order_id = boid,
            bt_amount = (case bij_amount bi of None \<Rightarrow> Num 0 | Some a \<Rightarrow> a),
            bt_asset = (case bij_asset bi of None \<Rightarrow> [] | Some a \<Rightarrow> a),
            bt_status = ''paid'', bt_created_at = now\<rparr>]"
    by (simp add: bot_insert_transaction_def bot_credit_user_def bot_set_paid_def)
  show ?thesis
    using res o t by simp
qed

subsection \<open>The bulk sweep of bot.py writes no transaction\<close>

lemma sweep_transactions:
  "bot_transactions (fst (sweep gw now os st)) = bot_transactions (fst st)"
  by (induction gw now os st rule: sweep.induct)
     (auto simp: bot_credit_user_def bot_set_paid_by_id_def split: sum.splits)

lemma admin_check_all_transactions:
  "bot_transactions (fst (admin_check_all admin_ids from_user db gw now)) = bot_transactions db"
  using sweep_transactions
    [of gw now "filter (\<lambda>x. bo_status x = ''pending'') (bot_orders db)" "(db, 0, 0)"]
  by (auto simp: admin_check_all_def Let_def split: prod.splits)

subsection \<open>Registration in the modular application, transport errors, the blocking client\<close>

lemma cmd_start_keeps_existing_user:
  "get_user db uid = Some u \<Longrightarrow> cmd_start db uid uname fname lname lang = db"
  by (simp add: cmd_start_def get_or_create_user_def get_user_def)

lemma transport_error_never_mutates:
  "fst (main_check_payment db oid (ClientError e) now) = db
   \<and> fst (main_check_payment db oid OtherError now) = db
   \<and> fst (bot_check_payment bdb boid BotTransportError now) = bdb"
  by (simp add: main_check_payment_def gateway_defs bot_check_payment_def bot_defs
        split: option.splits)

text \<open>
  The administrator's manual confirmation has no test of the status: on the paid order
  \<^verbatim>\<open>B2\<close> it credits the user a second time.
\<close>

lemma manual_confirm_order_credits_paid_order:
  "map u_orders_count (users terminal_db) = [1]
   \<and> snd (manual_confirm_order terminal_db ''B2'' ''t1'') = OrderConfirmed
   \<and> map u_orders_count (users (fst (manual_confirm_order terminal_db ''B2'' ''t1''))) = [2]
   \<and> map u_total_spent (users (fst (manual_confirm_order terminal_db ''B2'' ''t1''))) = [10]"
  by (simp add: manual_confirm_order_def store_defs example_defs)

lemma check_payment_sync_transport_error:
  "check_payment_sync n (ClientError e) = expired_check n
   \<and> check_payment_sync n OtherError = expired_check n
   \<and> pc_status (expired_check n) = EXPIRED \<and> \<not> pc_is_paid (expired_check n)"
  by (simp add: check_payment_sync_def expired_check_def)


section \<open>Idempotent reconciliation\<close>

text \<open>
  C1. Pressing "I paid" twice on a pending order whose invoice the gateway reports paid both
  times should leave exactly one transaction and exactly one increment of the user's
  \<^verbatim>\<open>total_spent\<close> and \<^verbatim>\<open>orders_count\<close>. Neither \<^verbatim>\<open>check_payment\<close> tests the order's status
  first: on the order of 9.99 below, the second call credits the user again (count 2, spent
  19.98) in both implementations, and in bot.py it also writes a second transaction for
  invoice 100.
\<close>

theorem check_payment_twice_credits_twice:
  "(case main_check_payment example_db ''A1'' paid_reply ''t1'' of
      (db1, r1) \<Rightarrow>
        (case main_check_payment db1 ''A1'' paid_reply ''t2'' of
           (db2, r2) \<Rightarrow>
             r1 = PaymentSuccess \<and> r2 = PaymentSuccess \<and>
             map u_orders_count (users db2) = [2] \<and>
             map u_total_spent (users db2) = [19.98] \<and>
             length (transactions db2) = 1))
   \<and> (case bot_check_payment bot_example_db ''A1'' bot_paid_reply ''t1'' of
      (db1, r1) \<Rightarrow>
        (case bot_check_payment db1 ''A1'' bot_paid_reply ''t2'' of
           (db2, r2) \<Rightarrow>
             r1 = PaymentSuccess \<and> r2 = PaymentSuccess \<and>
             map bu_orders_count (bot_users db2) = [2] \<and>
             map bu_total_spent (bot_users db2) = [19.98] \<and>
             map bt_invoice_id (bot_transactions db2) = [Some 100, Some 100]))"
  by (simp add: main_check_payment_def bot_check_payment_def store_defs gateway_defs bot_defs
        example_defs)


section \<open>Terminal orders\<close>

text \<open>
  The operations that test the status leave an order alone once it is paid, cancelled or
  expired: the user's cancel in both implementations, the administrator's
  \<^verbatim>\<open>manual_check_payment\<close>, \<^verbatim>\<open>_handle_invoice_expired\<close> and the webhook of bot.py, which act on
  pending orders only. The webhook of webhook.py tests for \<^verbatim>\<open>paid\<close> only and so leaves a paid
  order alone.
\<close>

lemma terminal_order_guarded_operations:
  assumes "get_order db oid = Some ord"
    and "o_status ord \<in> {''paid'', ''cancelled'', ''expired''}"
    and "wd_payload d = Some oid" and "oid \<noteq> []"
    and "get_order db oid2 = Some ord2" and "o_status ord2 = ''paid''"
    and "wd_payload d2 = Some oid2" and "oid2 \<noteq> []"
    and "wd_invoice_id d2 = Some n" and "n \<noteq> 0"
    and "bot_get_order bdb boid = Some bord"
    and "bo_status bord \<in> {''paid'', ''cancelled'', ''expired''}"
    and "wd_payload bd = Some boid"
  shows "cancel_payment db oid = (db, AlreadyProcessed)
    \<and> manual_check_payment db oid r now = (db, Inr (AlreadyHasStatus (o_status ord)))
    \<and> handle_invoice_expired db (Some d) = (db, AlreadyProcessed200)
    \<and> handle_webhook db (Update (Some ''invoice_paid'') (Some d2)) now =
        (db, AlreadyProcessed200)
    \<and> bot_cancel_order bdb boid = (bdb, AlreadyProcessed)
    \<and> bot_webhook bdb (Update ut (Some bd)) now = (bdb, Ok200)"
proof -
  have np: "o_status ord \<noteq> ''pending''"
    using assms(2) by auto
  have bnp: "bo_status bord \<noteq> ''pending''"
    using assms(12) by auto
  have 1: "cancel_payment db oid = (db, AlreadyProcessed)"
    using assms(1) np by (simp add: cancel_payment_def)
  have 2: "manual_check_payment db oid r now = (db, Inr (AlreadyHasStatus (o_status ord)))"
    using assms(1) np by (simp add: manual_check_payment_def)
  have 3: "handle_invoice_expired db (Some d) = (db, AlreadyProcessed200)"
    using assms(1,3,4) np by (simp add: handle_invoice_expired_def)
  have 4: "handle_webhook db (Update (Some ''invoice_paid'') (Some d2)) now =
      (db, AlreadyProcessed200)"
    using assms(5-10) by (simp add: handle_webhook_def handle_invoice_paid_def find_order_def)
  have 5: "bot_cancel_order bdb boid = (bdb, AlreadyProcessed)"
    using assms(11) bnp by (simp add: bot_cancel_order_def)
  have 6: "bot_webhook bdb (Update ut (Some bd)) now = (bdb, Ok200)"
    using assms(11,13) bnp by (simp add: bot_webhook_def)
  show ?thesis
    using 1 2 3 4 5 6 by simp
qed

text \<open>
  An instance: the cancelled order \<^verbatim>\<open>A1\<close> and the paid order \<^verbatim>\<open>B2\<close> of \<open>terminal_db\<close>, the
  paid order \<^verbatim>\<open>A1\<close> of \<open>bot_terminal_db\<close>.
\<close>

lemma terminal_order_guarded_operations_example:
  "cancel_payment terminal_db ''A1'' = (terminal_db, AlreadyProcessed)
    \<and> manual_check_payment terminal_db ''A1'' paid_reply ''t1'' =
        (terminal_db, Inr (AlreadyHasStatus ''cancelled''))
    \<and> handle_invoice_expired terminal_db
          (Some \<lparr>wd_invoice_id = Some 100, wd_payload = Some ''A1'', wd_amount = None,
                  wd_asset = None\<rparr>) = (terminal_db, AlreadyProcessed200)
    \<and> handle_webhook terminal_db
          (Update (Some ''invoice_paid'')
             (Some \<lparr>wd_invoice_id = Some 200, wd_payload = Some ''B2'', wd_amount = Some (Num 5),
                     wd_asset = Some ''USDT''\<rparr>)) ''t1'' = (terminal_db, AlreadyProcessed200)
    \<and> bot_cancel_order bot_terminal_db ''A1'' = (bot_terminal_db, AlreadyProcessed)
    \<and> bot_webhook bot_terminal_db paid_update ''t1'' = (bot_terminal_db, Ok200)"
proof -
  have 1: "get_order terminal_db ''A1'' = Some (orders terminal_db ! 0)"
    by (simp add: get_order_def example_defs)
  have 2: "o_status (orders terminal_db ! 0) \<in> {''paid'', ''cancelled'', ''expired''}"
    by (simp add: example_defs)
  have 3: "get_order terminal_db ''B2'' = Some (orders terminal_db ! 1)"
    by (simp add: get_order_def example_defs)
  have 4: "o_status (orders terminal_db ! 1) = ''paid''"
    by (simp add: example_defs)
  have 5: "bot_get_order bot_terminal_db ''A1'' = Some (bot_orders bot_terminal_db ! 0)"
    by (simp add: bot_get_order_def example_defs)
  have 6: "bo_status (bot_orders bot_terminal_db ! 0) \<in> {''paid'', ''cancelled'', ''expired''}"
    by (simp add: example_defs)
  show ?thesis
    using terminal_order_guarded_operations [OF 1 2 _ _ 3 4 _ _ _ _ 5 6,
        of "\<lparr>wd_invoice_id = Some 100, wd_payload = Some ''A1'', wd_amount = None,
             wd_asset = None\<rparr>"
           "\<lparr>wd_invoice_id = Some 200, wd_payload = Some ''B2'', wd_amount = Some (Num 5),
             wd_asset = Some ''USDT''\<rparr>" 200
           "\<lparr>wd_invoice_id = Some 100, wd_payload = Some ''A1'', wd_amount = Some (Num 9.99),
             wd_asset = Some ''USDT''\<rparr>" paid_reply "''t1''" "Some ''invoice_paid''"]
    by (simp add: example_defs)
qed

text \<open>
  C2. Once an order is paid, cancelled or expired, no later operation should change its
  status or create a transaction for it. Three of the operations the claim names do. The
  webhook of webhook.py turns away only orders that are already paid, where its siblings
  test for pending: a paid event for the cancelled order \<^verbatim>\<open>A1\<close> marks it paid and writes a
  transaction for invoice 100. The user's check has no test of the status at all: in main.py
  it does the same to the cancelled order, and in bot.py it writes a second transaction for
  the order that is already paid. The administrator's manual confirmation marks the
  cancelled order paid and credits the user.
\<close>

theorem terminal_order_changed_by_later_operations:
  "map o_status (orders terminal_db) = [''cancelled'', ''paid'']
   \<and> map t_invoice_id (transactions terminal_db) = [200]
   \<and> map o_status (orders (fst (handle_webhook terminal_db paid_update ''t1''))) =
       [''paid'', ''paid'']
   \<and> map t_invoice_id (transactions (fst (handle_webhook terminal_db paid_update ''t1''))) =
       [200, 100]
   \<and> map o_status (orders (fst (main_check_payment terminal_db ''A1'' paid_reply ''t1''))) =
       [''paid'', ''paid'']
   \<and> map t_invoice_id
        (transactions (fst (main_check_payment terminal_db ''A1'' paid_reply ''t1''))) =
       [200, 100]
   \<and> map bo_status (bot_orders bot_terminal_db) = [''paid'', ''pending'']
   \<and> map bt_invoice_id
        (bot_transactions (fst (bot_check_payment bot_terminal_db ''A1'' bot_paid_reply ''t2''))) =
       [Some 100, Some 100]
   \<and> map o_status (orders (fst (manual_confirm_order terminal_db ''A1'' ''t1''))) =
       [''paid'', ''paid'']
   \<and> map u_orders_count (users (fst (manual_confirm_order terminal_db ''A1'' ''t1''))) = [2]"
  by (simp add: handle_webhook_def handle_invoice_paid_def find_order_def
        main_check_payment_def bot_check_payment_def manual_confirm_order_def
        store_defs gateway_defs bot_defs example_defs)


section \<open>One transaction per invoice\<close>

text \<open>
  C3, as stated, fails: the store has no uniqueness constraint on the invoice id. A second
  \<^verbatim>\<open>create_transaction\<close> for invoice 100 is accepted and the table then holds two rows for it.
\<close>

theorem create_transaction_accepts_duplicate_invoice:
  "map t_invoice_id
     (transactions (create_transaction
        (create_transaction example_db 100 ''A1'' 9.99 ''USDT'' [] ''paid'')
        100 ''B2'' 5 ''USDT'' [] ''paid'')) = [100, 100]"
  by (simp add: create_transaction_def example_defs)

text \<open>
  C3, amended. \<^verbatim>\<open>create_transaction\<close> always inserts a row. In the modular application it is
  the callers that keep at most one transaction per invoice id: \<^verbatim>\<open>check_payment\<close> of main.py,
  \<^verbatim>\<open>manual_check_payment\<close> and the webhook insert only after \<^verbatim>\<open>transaction_exists\<close> said no, so
  a table with pairwise different invoice ids stays so.
\<close>

theorem callers_keep_invoice_ids_unique:
  assumes "distinct (map t_invoice_id (transactions db))"
  shows "length (transactions (create_transaction db iid oid' a c n s)) =
          length (transactions db) + 1
    \<and> distinct (map t_invoice_id (transactions (fst (main_check_payment db oid r now))))
    \<and> distinct (map t_invoice_id (transactions (fst (manual_check_payment db oid r now))))
    \<and> distinct (map t_invoice_id (transactions (fst (handle_webhook db body now))))"
  using assms
  by (simp add: distinct_main_check_payment distinct_manual_check_payment
        distinct_handle_webhook create_transaction_def)

text \<open>
  C3, witness: \<open>two_orders_db\<close> holds one transaction, for invoice 200; its pending order
  \<^verbatim>\<open>A1\<close> is then reported paid on each of the three paths.
\<close>

theorem callers_keep_invoice_ids_unique_witness:
  "distinct (map t_invoice_id (transactions two_orders_db))
    \<and> length (transactions (create_transaction two_orders_db 200 ''C3'' 5 ''USDT'' [] ''paid'')) = 2
    \<and> distinct (map t_invoice_id
          (transactions (fst (main_check_payment two_orders_db ''A1'' paid_reply ''t1''))))
    \<and> distinct (map t_invoice_id
          (transactions (fst (manual_check_payment two_orders_db ''A1'' paid_reply ''t1''))))
    \<and> distinct (map t_invoice_id
          (transactions (fst (handle_webhook two_orders_db paid_update ''t1''))))"
proof -
  have 1: "distinct (map t_invoice_id (transactions two_orders_db))"
    by (simp add: example_defs)
  have 2: "length (transactions two_orders_db) = 1"
    by (simp add: example_defs)
  show ?thesis
    using callers_keep_invoice_ids_unique
      [OF 1, of 200 "''C3''" 5 "''USDT''" "[]" "''paid''" "''A1''" paid_reply "''t1''" paid_update]
      1 2
    by simp
qed


section \<open>Atomicity of the transition to paid\<close>

text \<open>
  C4. The three writes of the transition to paid should commit together or not at all. In
  the modular application each write is a call of its own that commits on return. When the
  webhook update carries an \<^verbatim>\<open>amount\<close> that \<^verbatim>\<open>float()\<close> rejects, the handler has already
  committed the new status and the user's credit when the exception is raised: it answers
  500, the order is paid, the user is credited and no transaction exists. The
  administrator's \<^verbatim>\<open>manual_check_payment\<close> ends the same way on every paid invoice, with the
  \<^verbatim>\<open>AttributeError\<close> of \<^verbatim>\<open>payment.currency\<close>.
\<close>

theorem failed_transition_leaves_partial_update:
  "snd (handle_webhook example_db bad_amount_update ''t1'') = Exception500
   \<and> map o_status (orders (fst (handle_webhook example_db bad_amount_update ''t1''))) = [''paid'']
   \<and> map u_orders_count (users (fst (handle_webhook example_db bad_amount_update ''t1''))) = [1]
   \<and> transactions (fst (handle_webhook example_db bad_amount_update ''t1'')) = []
   \<and> snd (manual_check_payment example_db ''A1'' paid_reply ''t1'') = Inl AttributeError
   \<and> map o_status (orders (fst (manual_check_payment example_db ''A1'' paid_reply ''t1''))) =
       [''paid'']
   \<and> map u_orders_count (users (fst (manual_check_payment example_db ''A1'' paid_reply ''t1''))) =
       [1]
   \<and> transactions (fst (manual_check_payment example_db ''A1'' paid_reply ''t1'')) = []"
  by (simp add: handle_webhook_def handle_invoice_paid_def find_order_def
        manual_check_payment_def store_defs gateway_defs example_defs)


section \<open>The paid transition\<close>

text \<open>
  C5. A pending order whose invoice is reported paid should end up paid, its user credited,
  and one transaction recorded. The bulk sweep of bot.py, \<^verbatim>\<open>admin_check_all\<close>, confirms the
  order and credits the user but records no transaction.
\<close>

theorem admin_check_all_records_no_transaction:
  "snd (admin_check_all [1] 1 bot_example_db paid_gateway ''t1'') = SweepDone 1 1
   \<and> map bo_status (bot_orders (fst (admin_check_all [1] 1 bot_example_db paid_gateway ''t1''))) =
       [''paid'']
   \<and> map bu_total_spent
        (bot_users (fst (admin_check_all [1] 1 bot_example_db paid_gateway ''t1''))) = [9.99]
   \<and> map bu_orders_count
        (bot_users (fst (admin_check_all [1] 1 bot_example_db paid_gateway ''t1''))) = [1]
   \<and> bot_transactions (fst (admin_check_all [1] 1 bot_example_db paid_gateway ''t1'')) = []"
  by (simp add: admin_check_all_def bot_defs example_defs)


section \<open>Expiry\<close>

text \<open>
  Whatever the client reports, only \<^verbatim>\<open>PAID\<close> counts as paid; so an \<^verbatim>\<open>EXPIRED\<close> report, be it
  for an expired invoice, a missing one or an unrecognised status, takes the branch of
  the user's check that writes nothing.
\<close>

lemma check_payment_is_paid:
  "check_payment n r = Inr pc \<Longrightarrow> pc_is_paid pc = (pc_status pc = PAID)"
  by (auto simp: check_payment_def Let_def split: sum.splits option.splits)

lemma bot_api_check_payment_is_paid:
  "bot_api_check_payment br = Inr bp \<Longrightarrow> bp_is_paid bp = (bp_status bp = ''paid'')"
  by (auto simp: bot_api_check_payment_def Let_def split: sum.splits option.splits)

lemma expired_report_changes_nothing:
  assumes "get_order db oid = Some ord"
    and "check_payment (o_invoice_id ord) r = Inr pc" and "pc_status pc = EXPIRED"
    and "bot_get_order bdb boid = Some bord"
    and "bot_api_check_payment br = Inr bp" and "bp_status bp = ''expired''"
  shows "main_check_payment db oid r now =
          (db, PaymentNotPaid
                 (case status_text_map (case pc_raw_status pc of None \<Rightarrow> [] | Some s \<Rightarrow> s) of
                    None \<Rightarrow> TextUnknown
                  | Some t \<Rightarrow> t))
    \<and> bot_check_payment bdb boid br now = (bdb, PaymentNotPaid TextExpired)"
proof -
  have 1: "\<not> pc_is_paid pc"
    using check_payment_is_paid [OF assms(2)] assms(3) by simp
  have 2: "\<not> bp_is_paid bp"
    using bot_api_check_payment_is_paid [OF assms(5)] assms(6) by simp
  show ?thesis
    using assms 1 2
    by (simp add: main_check_payment_def bot_check_payment_def bot_status_text_def)
qed

text \<open>
  The transition from pending to expired is written once in the repository, in
  \<^verbatim>\<open>_handle_invoice_expired\<close> of webhook.py, which \<^verbatim>\<open>_handle_webhook\<close> never calls.
\<close>

lemma handle_invoice_expired_sets_expired:
  "handle_invoice_expired example_db
     (Some \<lparr>wd_invoice_id = Some 100, wd_payload = Some ''A1'', wd_amount = None,
             wd_asset = None\<rparr>) =
     (example_db\<lparr>orders := [example_order\<lparr>o_status := ''expired''\<rparr>]\<rparr>, Ok200)"
  by (simp add: handle_invoice_expired_def store_defs example_defs)

text \<open>
  C6. If the gateway reports the invoice expired while the order is pending, the check
  should set the order's status to expired, with no monetary effect. \<^verbatim>\<open>check_payment\<close> of
  main.py and of bot.py only word their answer: for the pending order \<^verbatim>\<open>A1\<close> the store is
  unchanged and the order is still pending, for an expired invoice as for a missing one.
\<close>

theorem check_payment_expired_leaves_order_pending:
  "map o_status (orders example_db) = [''pending'']
   \<and> main_check_payment example_db ''A1'' expired_reply ''t1'' =
       (example_db, PaymentNotPaid TextExpired)
   \<and> main_check_payment example_db ''A1'' not_found_reply ''t1'' =
       (example_db, PaymentNotPaid TextUnknown)
   \<and> map bo_status (bot_orders bot_example_db) = [''pending'']
   \<and> bot_check_payment bot_example_db ''A1'' bot_expired_reply ''t1'' =
       (bot_example_db, PaymentNotPaid TextExpired)"
  by (simp add: main_check_payment_def bot_check_payment_def store_defs gateway_defs bot_defs
        status_text_map_def example_defs)


section \<open>Cancellation\<close>

text \<open>
  The cancel offered to the user (\<^verbatim>\<open>cancel_payment\<close> of main.py, \<^verbatim>\<open>cancel_order\<close> of bot.py)
  is permitted only while the order is pending: a pending order becomes cancelled with
  users and transactions untouched; for any other status the store stays as it is and the
  answer is "order already processed".
\<close>

lemma user_cancel_only_when_pending:
  assumes "get_order db oid = Some ord" and "o_status ord = ''pending''"
    and "get_order db oid2 = Some ord2" and "o_status ord2 \<noteq> ''pending''"
    and "bot_get_order bdb boid = Some bord" and "bo_status bord = ''pending''"
    and "bot_get_order bdb boid2 = Some bord2" and "bo_status bord2 \<noteq> ''pending''"
  shows "snd (cancel_payment db oid) = OrderCancelled
    \<and> get_order (fst (cancel_payment db oid)) oid = Some (ord\<lparr>o_status := ''cancelled''\<rparr>)
    \<and> users (fst (cancel_payment db oid)) = users db
    \<and> transactions (fst (cancel_payment db oid)) = transactions db
    \<and> cancel_payment db oid2 = (db, AlreadyProcessed)
    \<and> snd (bot_cancel_order bdb boid) = OrderCancelled
    \<and> bot_get_order (fst (bot_cancel_order bdb boid)) boid =
        Some (bord\<lparr>bo_status := ''cancelled''\<rparr>)
    \<and> bot_users (fst (bot_cancel_order bdb boid)) = bot_users bdb
    \<and> bot_transactions (fst (bot_cancel_order bdb boid)) = bot_transactions bdb
    \<and> bot_cancel_order bdb boid2 = (bdb, AlreadyProcessed)"
proof -
  have 1: "cancel_payment db oid = (update_order_status db oid ''cancelled'' None, OrderCancelled)"
    using assms(1,2) by (simp add: cancel_payment_def)
  have 2: "get_order (update_order_status db oid ''cancelled'' None) oid =
      Some (ord\<lparr>o_status := ''cancelled''\<rparr>)"
    using assms(1) by (simp add: get_order_update_order_status truthy_def)
  have 3: "cancel_payment db oid2 = (db, AlreadyProcessed)"
    using assms(3,4) by (simp add: cancel_payment_def)
  have 4: "bot_cancel_order bdb boid =
      (bdb\<lparr>bot_orders := map (\<lambda>x. if bo_order_id x = boid
                                    then x\<lparr>bo_status := ''cancelled''\<rparr> else x)
                             (bot_orders bdb)\<rparr>, OrderCancelled)"
    using assms(5,6) by (simp add: bot_cancel_order_def)
  have 5: "bot_get_order (fst (bot_cancel_order bdb boid)) boid =
      Some (bord\<lparr>bo_status := ''cancelled''\<rparr>)"
    using assms(5) by (simp add: 4) (simp add: bot_get_order_def find_map_bot_status)
  have 6: "bot_cancel_order bdb boid2 = (bdb, AlreadyProcessed)"
    using assms(7,8) by (simp add: bot_cancel_order_def)
  show ?thesis
    using 1 2 3 5 6 by (simp add: 4)
qed

text \<open>
  An instance: in \<open>two_orders_db\<close> the order \<^verbatim>\<open>A1\<close> is pending and \<^verbatim>\<open>B2\<close> is paid; in
  \<open>bot_terminal_db\<close> it is the other way round.
\<close>

lemma user_cancel_only_when_pending_example:
  "snd (cancel_payment two_orders_db ''A1'') = OrderCancelled
    \<and> map o_status (orders (fst (cancel_payment two_orders_db ''A1''))) = [''cancelled'', ''paid'']
    \<and> cancel_payment two_orders_db ''B2'' = (two_orders_db, AlreadyProcessed)
    \<and> snd (bot_cancel_order bot_terminal_db ''B2'') = OrderCancelled
    \<and> map bo_status (bot_orders (fst (bot_cancel_order bot_terminal_db ''B2''))) =
        [''paid'', ''cancelled'']
    \<and> bot_cancel_order bot_terminal_db ''A1'' = (bot_terminal_db, AlreadyProcessed)"
proof -
  have 1: "get_order two_orders_db ''A1'' = Some example_order"
    by (simp add: get_order_def example_defs)
  have 2: "o_status example_order = ''pending''"
    by (simp add: example_defs)
  have 3: "get_order two_orders_db ''B2'' = Some (orders two_orders_db ! 1)"
    by (simp add: get_order_def example_defs)
  have 4: "o_status (orders two_orders_db ! 1) \<noteq> ''pending''"
    by (simp add: example_defs)
  have 5: "bot_get_order bot_terminal_db ''B2'' = Some (bot_orders bot_terminal_db ! 1)"
    by (simp add: bot_get_order_def example_defs)
  have 6: "bo_status (bot_orders bot_terminal_db ! 1) = ''pending''"
    by (simp add: example_defs)
  have 7: "bot_get_order bot_terminal_db ''A1'' = Some (bot_orders bot_terminal_db ! 0)"
    by (simp add: bot_get_order_def example_defs)
  have 8: "bo_status (bot_orders bot_terminal_db ! 0) \<noteq> ''pending''"
    by (simp add: example_defs)
  show ?thesis
    using user_cancel_only_when_pending [OF 1 2 3 4 5 6 7 8]
    by (simp add: cancel_payment_def bot_cancel_order_def store_defs bot_defs example_defs)
qed

text \<open>
  C7. Cancelling should be permitted only while the order is pending; on any other order it
  should change nothing and be turned away. The administrator's \<^verbatim>\<open>manual_cancel_order\<close> has
  no test of the status: it cancels the paid order \<^verbatim>\<open>B2\<close> and answers "order cancelled",
  while \<^verbatim>\<open>paid_at\<close>, the user's credit and the transaction of that order stay in place.
\<close>

theorem manual_cancel_order_cancels_paid_order:
  "map o_status (orders two_orders_db) = [''pending'', ''paid'']
   \<and> snd (manual_cancel_order two_orders_db ''B2'') = OrderCancelled
   \<and> map o_status (orders (fst (manual_cancel_order two_orders_db ''B2''))) =
       [''pending'', ''cancelled'']
   \<and> map o_paid_at (orders (fst (manual_cancel_order two_orders_db ''B2''))) =
       [None, Some ''t0'']
   \<and> map u_orders_count (users (fst (manual_cancel_order two_orders_db ''B2''))) = [1]
   \<and> map u_total_spent (users (fst (manual_cancel_order two_orders_db ''B2''))) = [5]
   \<and> map t_order_id (transactions (fst (manual_cancel_order two_orders_db ''B2''))) = [''B2'']"
  by (simp add: manual_cancel_order_def store_defs example_defs)


section \<open>The user's aggregates\<close>

text \<open>
  C8. \<^verbatim>\<open>total_spent\<close> and \<^verbatim>\<open>orders_count\<close> should never decrease, and registering again on
  \<^verbatim>\<open>/start\<close> should not touch them. \<^verbatim>\<open>cmd_start\<close> of bot.py replaces the user's row: a user who
  has spent 9.99 on one order is back at 0 and 0 after \<^verbatim>\<open>/start\<close>. (\<^verbatim>\<open>get_or_create_user\<close> of
  database.py keeps the row, see \<open>cmd_start_keeps_existing_user\<close>.)
\<close>

theorem bot_cmd_start_resets_user_stats:
  "map bu_total_spent (bot_users bot_terminal_db) = [9.99]
   \<and> map bu_orders_count (bot_users bot_terminal_db) = [1]
   \<and> map bu_total_spent
        (bot_users (bot_cmd_start bot_terminal_db 7 (Some ''ann'') (Some ''Ann''))) = [0]
   \<and> map bu_orders_count
        (bot_users (bot_cmd_start bot_terminal_db 7 (Some ''ann'') (Some ''Ann''))) = [0]"
  by (simp add: bot_cmd_start_def example_defs)


section \<open>Transport errors\<close>

text \<open>
  In the handlers a transport failure of the gateway query ends in the "check error"
  answer with the store unchanged. In the modular application a client error reaches the
  handler as a \<^verbatim>\<open>CryptoBotError\<close> with the text \<^verbatim>\<open>Network error: ...\<close>; \<^verbatim>\<open>get_invoice\<close> lets it
  pass unless that text contains \<^verbatim>\<open>INVOICE_NOT_FOUND\<close>, which is the hypothesis on \<open>e\<close>. The
  store is unchanged without it, too: \<open>transport_error_never_mutates\<close>.
\<close>

lemma transport_error_check_failed:
  assumes "get_order db oid = Some ord"
    and "\<not> contains_str (''Network error: '' @ e) ''INVOICE_NOT_FOUND''"
    and "bot_get_order bdb boid = Some bord"
  shows "main_check_payment db oid (ClientError e) now = (db, CheckError)
    \<and> main_check_payment db oid OtherError now = (db, CheckError)
    \<and> bot_check_payment bdb boid BotTransportError now = (bdb, CheckError)"
  using assms
  by (simp add: main_check_payment_def check_payment_def get_invoice_def make_request_def
        bot_check_payment_def bot_api_check_payment_def bot_get_invoice_def)

text \<open>An instance: a connection reset while the pending order \<^verbatim>\<open>A1\<close> is checked.\<close>

lemma transport_error_check_failed_example:
  "get_order example_db ''A1'' = Some example_order
    \<and> \<not> contains_str (''Network error: '' @ ''Connection reset'') ''INVOICE_NOT_FOUND''
    \<and> main_check_payment example_db ''A1'' (ClientError ''Connection reset'') ''t1'' =
        (example_db, CheckError)
    \<and> main_check_payment example_db ''A1'' OtherError ''t1'' = (example_db, CheckError)
    \<and> bot_check_payment bot_example_db ''A1'' BotTransportError ''t1'' =
        (bot_example_db, CheckError)"
proof -
  have 1: "get_order example_db ''A1'' = Some example_order"
    by (simp add: get_order_def example_defs)
  have 2: "\<not> contains_str (''Network error: '' @ ''Connection reset'') ''INVOICE_NOT_FOUND''"
    by simp
  have 3: "bot_get_order bot_example_db ''A1'' = Some (hd (bot_orders bot_example_db))"
    by (simp add: bot_get_order_def example_defs)
  show ?thesis
    using transport_error_check_failed [OF 1 2 3] 1 2 by simp
qed



section \<open>Normalisation of the provider's status\<close>

text \<open>
  C10, as stated, fails for the simplified client of bot.py: for an invoice the provider
  does not know it reports the fourth status \<^verbatim>\<open>unknown\<close>, not \<^verbatim>\<open>expired\<close>.
\<close>

theorem bot_check_payment_reports_unknown:
  "bot_api_check_payment (BotJson False None) =
     Inr \<lparr>bp_status = ''unknown'', bp_is_paid = False, bp_amount = None, bp_asset = None\<rparr>"
  by (simp add: bot_defs)

text \<open>
  C10, amended. \<^verbatim>\<open>check_payment\<close> of cryptobot.py reports one of \<^verbatim>\<open>PENDING\<close>, \<^verbatim>\<open>PAID\<close>,
  \<^verbatim>\<open>EXPIRED\<close>: \<^verbatim>\<open>active\<close> becomes \<^verbatim>\<open>PENDING\<close>, \<^verbatim>\<open>paid\<close> becomes \<^verbatim>\<open>PAID\<close>, every other status and an
  invoice that is not found become \<^verbatim>\<open>EXPIRED\<close>, and only \<^verbatim>\<open>paid\<close> counts as paid. The client of
  bot.py reports a missing invoice as \<^verbatim>\<open>unknown\<close> and not paid.
\<close>

theorem check_payment_normalization:
  assumes "get_invoice r1 = Inr None"
    and "get_invoice r2 = Inr (Some i)"
    and "bot_get_invoice b1 = Inr None"
  shows "check_payment n r1 = Inr (expired_check n)
    \<and> map_sum id pc_status (check_payment n r2) =
        Inr (if inv_status i = ''active'' then PENDING
             else if inv_status i = ''paid'' then PAID else EXPIRED)
    \<and> map_sum id pc_is_paid (check_payment n r2) = Inr (inv_status i = ''paid'')
    \<and> bot_api_check_payment b1 =
        Inr \<lparr>bp_status = ''unknown'', bp_is_paid = False, bp_amount = None, bp_asset = None\<rparr>"
  using assms
  by (simp add: check_payment_def expired_check_def status_map_def bot_api_check_payment_def)

text \<open>
  C10, witness: an \<^verbatim>\<open>INVOICE_NOT_FOUND\<close> answer, an invoice with the status \<^verbatim>\<open>cancelled\<close>, and
  an answer of bot.py's provider that is not \<^verbatim>\<open>ok\<close>.
\<close>

theorem check_payment_normalization_witness:
  "get_invoice not_found_reply = Inr None
    \<and> check_payment 100 not_found_reply = Inr (expired_check 100)
    \<and> pc_status (expired_check 100) = EXPIRED
    \<and> map_sum id pc_status (check_payment 100 cancelled_reply) = Inr EXPIRED
    \<and> map_sum id pc_is_paid (check_payment 100 cancelled_reply) = Inr False
    \<and> bot_api_check_payment (BotJson False None) =
        Inr \<lparr>bp_status = ''unknown'', bp_is_paid = False, bp_amount = None, bp_asset = None\<rparr>"
proof -
  have 1: "get_invoice not_found_reply = Inr None"
    by (simp add: gateway_defs example_defs)
  have 2: "get_invoice cancelled_reply =
      Inr (Some \<lparr>inv_invoice_id = 100, inv_status = ''cancelled'', inv_amount = Num 9.99,
                  inv_asset = Some ''USDT''\<rparr>)"
    by (simp add: gateway_defs example_defs)
  have 3: "bot_get_invoice (BotJson False None) = Inr None"
    by (simp add: bot_get_invoice_def)
  show ?thesis
    using check_payment_normalization [OF 1 2 3, of 100] 1 by (simp add: expired_check_def)
qed

end
